theory Spec2Isabelle
  imports Main "HOL-Library.Word"
begin

section \<open>The Argon2 resource of the password provider\<close>

text \<open>
  The repository holds two revisions of the file that implements the \<^verbatim>\<open>password_argon2\<close>
  resource. The first has no salt attribute and configures the hasher from the record's cost
  attributes; the second adds the attributes \<^verbatim>\<open>salt\<close> and \<^verbatim>\<open>time\<close> and builds the hasher
  from the recommended profile alone. Both are embedded here, the second with the suffix
  \<open>_salt\<close>. The plugin framework and the hashing library are not part of the repository:
  the few framework operations the resource calls are written out below as the framework
  documents them, and the hashing library is a parameter of every function that uses it.
\<close>

subsection \<open>Framework values\<close>

text \<open>\<^verbatim>\<open>types.String\<close> and \<^verbatim>\<open>types.Int32\<close>: a value is null, unknown or known. Their
  \<^verbatim>\<open>Equal\<close> method compares the state and, for known values, the value; this is the
  equality of the datatype.\<close>

datatype types_String = StringNull | StringUnknown | StringValue string

datatype types_Int32 = Int32Null | Int32Unknown | Int32Value "32 word"

fun ValueString :: "types_String \<Rightarrow> string" where
  "ValueString (StringValue s) = s"
| "ValueString _ = []"

fun ValueInt32 :: "types_Int32 \<Rightarrow> 32 word" where
  "ValueInt32 (Int32Value i) = i"
| "ValueInt32 _ = 0"

subsection \<open>Diagnostics\<close>

datatype Severity = SeverityError | SeverityWarning

datatype Diagnostic = Diagnostic (Severity: Severity) (Summary: string) (Detail: string)

type_synonym Diagnostics = "Diagnostic list"

definition HasError :: "Diagnostics \<Rightarrow> bool" where
  "HasError diags = (\<exists>d \<in> set diags. Severity d = SeverityError)"

text \<open>\<^verbatim>\<open>Append\<close> adds each new diagnostic that the collection does not contain yet.\<close>

fun Append :: "Diagnostics \<Rightarrow> Diagnostics \<Rightarrow> Diagnostics" where
  "Append diags [] = diags"
| "Append diags (d # ds) = Append (if d \<in> set diags then diags else diags @ [d]) ds"

definition AddError :: "Diagnostics \<Rightarrow> string \<Rightarrow> string \<Rightarrow> Diagnostics" where
  "AddError diags summary detail = Append diags [Diagnostic SeverityError summary detail]"

subsection \<open>The resource data model\<close>

text \<open>\<^verbatim>\<open>Argon2ResourceModel\<close> of the first revision, and of the second, which has the two
  further fields \<^verbatim>\<open>Salt\<close> and \<^verbatim>\<open>Time\<close>.\<close>

record Argon2ResourceModel =
  Password :: types_String
  KeyLen :: types_Int32
  Thread :: types_Int32
  Memory :: types_Int32
  Iterations :: types_Int32
  Hash :: types_String
  Id :: types_String

record Argon2ResourceModelSalt = Argon2ResourceModel +
  Salt :: types_String
  Time :: types_Int32

text \<open>The zero value of a Go struct of framework values: every field null.\<close>

definition zero_Argon2ResourceModel :: Argon2ResourceModel where
  "zero_Argon2ResourceModel =
     \<lparr>Password = StringNull, KeyLen = Int32Null, Thread = Int32Null, Memory = Int32Null,
      Iterations = Int32Null, Hash = StringNull, Id = StringNull\<rparr>"

definition zero_Argon2ResourceModelSalt :: Argon2ResourceModelSalt where
  "zero_Argon2ResourceModelSalt =
     \<lparr>Password = StringNull, KeyLen = Int32Null, Thread = Int32Null, Memory = Int32Null,
      Iterations = Int32Null, Hash = StringNull, Id = StringNull,
      Salt = StringNull, Time = Int32Null\<rparr>"

subsection \<open>Plan, state, request and response\<close>

text \<open>
  A plan or a state is a raw object or null (\<open>None\<close>). \<^verbatim>\<open>Get(ctx, &data)\<close> decodes it into
  the target struct and returns the diagnostics of the decoding: a null object cannot be
  decoded into a struct, which is reported as an error and leaves the target as it was.
  \<^verbatim>\<open>State.Set(ctx, &data)\<close> stores the struct and reports nothing.
\<close>

definition tfsdk_Get :: "'m option \<Rightarrow> 'm \<Rightarrow> Diagnostics \<times> 'm" where
  "tfsdk_Get raw target =
     (case raw of
        None \<Rightarrow> ([Diagnostic SeverityError ''Value Conversion Error''
                    ''Received null value, however the target type cannot handle null values.''],
                 target)
      | Some v \<Rightarrow> ([], v))"

definition tfsdk_Set :: "'m \<Rightarrow> Diagnostics \<times> 'm option" where
  "tfsdk_Set data = ([], Some data)"

text \<open>One request type serves the four operations: Create reads \<^verbatim>\<open>req.Plan\<close>, Read and
  Delete read \<^verbatim>\<open>req.State\<close>, Update reads both.\<close>

record 'm Request =
  req_Plan :: "'m option"
  req_State :: "'m option"

record 'm Response =
  resp_State :: "'m option"
  resp_Diagnostics :: Diagnostics

subsection \<open>The hashing library and the world outside the response\<close>

datatype Variant = VariantD | VariantI | VariantID

datatype Opt =
    WithIterations int
  | WithKeyLength int
  | WithMemoryInKiB "32 word"
  | WithVariant Variant
  | WithParallelism int

text \<open>
  The library calls of the two revisions, over a hasher type \<open>'h\<close>, a digest type \<open>'d\<close> and
  a random source \<open>'r\<close>. \<^verbatim>\<open>WithOptions\<close> mutates its receiver and returns an error or nil, so
  here it returns the hasher as it is left together with the optional error. \<^verbatim>\<open>Hash\<close> draws
  the salt from the random source. \<^verbatim>\<open>crypt.CheckPassword\<close> is the verification routine the
  acceptance tests use. \<open>argon2_ProfileHasher\<close> is the hasher that
  \<^verbatim>\<open>argon2.ProfileRFC9106Recommended.Hasher()\<close> returns, \<open>argon2_New\<close> the result of
  \<^verbatim>\<open>argon2.New(argon2.WithProfileRFC9106Recommended())\<close>, a hasher or an error.
\<close>

record ('h, 'd, 'r) argon2 =
  argon2_ProfileHasher :: 'h
  argon2_New :: "string + 'h"
  Hasher_WithOptions :: "'h \<Rightarrow> Opt list \<Rightarrow> 'h \<times> string option"
  Hasher_Hash :: "'h \<Rightarrow> string \<Rightarrow> 'r \<Rightarrow> (string + 'd) \<times> 'r"
  Digest_String :: "'d \<Rightarrow> string"
  crypt_CheckPassword :: "string \<Rightarrow> string \<Rightarrow> bool"

text \<open>What an operation touches besides its response: the random source, the calls of
  \<^verbatim>\<open>hasher.Hash\<close> made so far (hasher and password of each), and the trace log.\<close>

record ('h, 'r) World =
  Rand :: 'r
  HashCalls :: "('h \<times> string) list"
  TraceLog :: "string list"

definition hasher_Hash ::
  "('h, 'd, 'r) argon2 \<Rightarrow> 'h \<Rightarrow> string \<Rightarrow> ('h, 'r) World \<Rightarrow> (string + 'd) \<times> ('h, 'r) World" where
  "hasher_Hash lib h password w =
     (case Hasher_Hash lib h password (Rand w) of
        (res, r) \<Rightarrow> (res, w\<lparr>Rand := r, HashCalls := HashCalls w @ [(h, password)]\<rparr>))"

definition tflog_Trace :: "string \<Rightarrow> ('h, 'r) World \<Rightarrow> ('h, 'r) World" where
  "tflog_Trace msg w = w\<lparr>TraceLog := TraceLog w @ [msg]\<rparr>"

subsection \<open>First revision: the hasher is configured from the record\<close>

text \<open>
  \<^verbatim>\<open>generatePassword(diag diag.Diagnostics, data Argon2ResourceModel)\<close>. The collection
  \<^verbatim>\<open>diag\<close> is a slice passed by value, and \<^verbatim>\<open>AddError\<close> replaces the slice held by its
  receiver: the errors are added to the function's own copy. The function returns the digest
  or nil only; the copy is returned here as well, so that what the function recorded can be
  told from what its caller sees. A failure of \<^verbatim>\<open>WithOptions\<close> is recorded and the
  function goes on to \<^verbatim>\<open>hasher.Hash\<close>. The options of the call, in the order of the
  source, are \<open>hasher_Options\<close>: \<^verbatim>\<open>int(...)\<close> of an \<^verbatim>\<open>int32\<close> is its signed value,
  \<^verbatim>\<open>uint32(...)\<close> keeps its bits.
\<close>

definition hasher_Options :: "Argon2ResourceModel \<Rightarrow> Opt list" where
  "hasher_Options data =
     [WithIterations (sint (ValueInt32 (Iterations data))),
      WithKeyLength (sint (ValueInt32 (KeyLen data))),
      WithMemoryInKiB (ValueInt32 (Memory data)),
      WithVariant VariantID,
      WithParallelism (sint (ValueInt32 (Thread data)))]"

definition generatePassword ::
  "('h, 'd, 'r) argon2 \<Rightarrow> Diagnostics \<Rightarrow> Argon2ResourceModel \<Rightarrow> ('h, 'r) World
     \<Rightarrow> ('d option \<times> Diagnostics) \<times> ('h, 'r) World" where
  "generatePassword lib diag data w =
     (case Hasher_WithOptions lib (argon2_ProfileHasher lib) (hasher_Options data) of
        (hasher, err) \<Rightarrow>
          let diag1 = (case err of
                         Some e \<Rightarrow> AddError diag ''Argon 2 initialization error''
                                     (''Unable to generate hash, got error '' @ e)
                       | None \<Rightarrow> diag)
          in (case hasher_Hash lib hasher (ValueString (Password data)) w of
                (Inl e, w1) \<Rightarrow>
                  ((None, AddError diag1 ''Argon 2 error''
                            (''Unable to hash Argon2, got error: '' @ e)), w1)
              | (Inr digest, w1) \<Rightarrow> ((Some digest, diag1), w1)))"

definition Create ::
  "('h, 'd, 'r) argon2 \<Rightarrow> Argon2ResourceModel Request \<Rightarrow> Argon2ResourceModel Response
     \<Rightarrow> ('h, 'r) World \<Rightarrow> Argon2ResourceModel Response \<times> ('h, 'r) World" where
  "Create lib req resp w =
     (case tfsdk_Get (req_Plan req) zero_Argon2ResourceModel of
        (ds, data0) \<Rightarrow>
          let resp1 = resp\<lparr>resp_Diagnostics := Append (resp_Diagnostics resp) ds\<rparr> in
          if HasError (resp_Diagnostics resp1) then (resp1, w)
          else
            let data1 = data0\<lparr>Id := StringValue ''argon2-id''\<rparr> in
            (case generatePassword lib (resp_Diagnostics resp1) data1 w of
               ((None, _), w1) \<Rightarrow> (resp1, w1)
             | ((Some digest, _), w1) \<Rightarrow>
                 let data2 = data1\<lparr>Hash := StringValue (Digest_String lib digest)\<rparr>;
                     w2 = tflog_Trace ''created a resource'' w1
                 in (case tfsdk_Set data2 of
                       (ds2, st) \<Rightarrow>
                         (resp1\<lparr>resp_State := st,
                                resp_Diagnostics := Append (resp_Diagnostics resp1) ds2\<rparr>, w2))))"

definition Read ::
  "Argon2ResourceModel Request \<Rightarrow> Argon2ResourceModel Response
     \<Rightarrow> ('h, 'r) World \<Rightarrow> Argon2ResourceModel Response \<times> ('h, 'r) World" where
  "Read req resp w =
     (case tfsdk_Get (req_State req) zero_Argon2ResourceModel of
        (ds, data) \<Rightarrow>
          let resp1 = resp\<lparr>resp_Diagnostics := Append (resp_Diagnostics resp) ds\<rparr> in
          if HasError (resp_Diagnostics resp1) then (resp1, w)
          else
            (case tfsdk_Set data of
               (ds2, st) \<Rightarrow>
                 (resp1\<lparr>resp_State := st,
                        resp_Diagnostics := Append (resp_Diagnostics resp1) ds2\<rparr>, w)))"

definition Update ::
  "('h, 'd, 'r) argon2 \<Rightarrow> Argon2ResourceModel Request \<Rightarrow> Argon2ResourceModel Response
     \<Rightarrow> ('h, 'r) World \<Rightarrow> Argon2ResourceModel Response \<times> ('h, 'r) World" where
  "Update lib req resp w =
     (case tfsdk_Get (req_Plan req) zero_Argon2ResourceModel of
        (ds, data) \<Rightarrow>
          let resp1 = resp\<lparr>resp_Diagnostics := Append (resp_Diagnostics resp) ds\<rparr> in
          if HasError (resp_Diagnostics resp1) then (resp1, w)
          else
            (case tfsdk_Get (req_State req) zero_Argon2ResourceModel of
               (ds1, oldData) \<Rightarrow>
                 let resp2 = resp1\<lparr>resp_Diagnostics := Append (resp_Diagnostics resp1) ds1\<rparr> in
                 if Password oldData = Password data then
                   (case tfsdk_Set (data\<lparr>Hash := Hash oldData\<rparr>) of
                      (ds2, st) \<Rightarrow>
                        (resp2\<lparr>resp_State := st,
                               resp_Diagnostics := Append (resp_Diagnostics resp2) ds2\<rparr>, w))
                 else
                   (case generatePassword lib (resp_Diagnostics resp2) data w of
                      ((None, _), w1) \<Rightarrow> (resp2, w1)
                    | ((Some digest, _), w1) \<Rightarrow>
                        (case tfsdk_Set (data\<lparr>Hash := StringValue (Digest_String lib digest)\<rparr>) of
                           (ds2, st) \<Rightarrow>
                             (resp2\<lparr>resp_State := st,
                                    resp_Diagnostics := Append (resp_Diagnostics resp2) ds2\<rparr>,
                              w1)))))"

definition Delete ::
  "Argon2ResourceModel Request \<Rightarrow> Argon2ResourceModel Response
     \<Rightarrow> ('h, 'r) World \<Rightarrow> Argon2ResourceModel Response \<times> ('h, 'r) World" where
  "Delete req resp w =
     (case tfsdk_Get (req_State req) zero_Argon2ResourceModel of
        (ds, data) \<Rightarrow> (resp\<lparr>resp_Diagnostics := Append (resp_Diagnostics resp) ds\<rparr>, w))"

subsection \<open>Second revision: explicit salt, hasher from the recommended profile\<close>

text \<open>\<^verbatim>\<open>generatePassword\<close> of the second revision builds the hasher with
  \<^verbatim>\<open>argon2.New(argon2.WithProfileRFC9106Recommended())\<close> and hashes the password; it reads
  no other field of the record.\<close>

definition generatePassword_salt ::
  "('h, 'd, 'r) argon2 \<Rightarrow> Diagnostics \<Rightarrow> Argon2ResourceModelSalt \<Rightarrow> ('h, 'r) World
     \<Rightarrow> ('d option \<times> Diagnostics) \<times> ('h, 'r) World" where
  "generatePassword_salt lib diag data w =
     (case argon2_New lib of
        Inl e \<Rightarrow>
          ((None, AddError diag ''Argon 2 error''
                    (''Unable to create Argon2, got error: '' @ e)), w)
      | Inr hasher \<Rightarrow>
          (case hasher_Hash lib hasher (ValueString (Password data)) w of
             (Inl e, w1) \<Rightarrow>
               ((None, AddError diag ''Argon 2 error''
                         (''Unable to hash Argon2, got error: '' @ e)), w1)
           | (Inr digest, w1) \<Rightarrow> ((Some digest, diag), w1)))"

definition Create_salt ::
  "('h, 'd, 'r) argon2 \<Rightarrow> Argon2ResourceModelSalt Request \<Rightarrow> Argon2ResourceModelSalt Response
     \<Rightarrow> ('h, 'r) World \<Rightarrow> Argon2ResourceModelSalt Response \<times> ('h, 'r) World" where
  "Create_salt lib req resp w =
     (case tfsdk_Get (req_Plan req) zero_Argon2ResourceModelSalt of
        (ds, data0) \<Rightarrow>
          let resp1 = resp\<lparr>resp_Diagnostics := Append (resp_Diagnostics resp) ds\<rparr> in
          if HasError (resp_Diagnostics resp1) then (resp1, w)
          else
            let data1 = data0\<lparr>Id := StringValue ''argon2-id''\<rparr> in
            (case generatePassword_salt lib (resp_Diagnostics resp1) data1 w of
               ((None, _), w1) \<Rightarrow> (resp1, w1)
             | ((Some digest, _), w1) \<Rightarrow>
                 let data2 = data1\<lparr>Hash := StringValue (Digest_String lib digest)\<rparr>;
                     w2 = tflog_Trace ''created a resource'' w1
                 in (case tfsdk_Set data2 of
                       (ds2, st) \<Rightarrow>
                         (resp1\<lparr>resp_State := st,
                                resp_Diagnostics := Append (resp_Diagnostics resp1) ds2\<rparr>, w2))))"

definition Read_salt ::
  "Argon2ResourceModelSalt Request \<Rightarrow> Argon2ResourceModelSalt Response
     \<Rightarrow> ('h, 'r) World \<Rightarrow> Argon2ResourceModelSalt Response \<times> ('h, 'r) World" where
  "Read_salt req resp w =
     (case tfsdk_Get (req_State req) zero_Argon2ResourceModelSalt of
        (ds, data) \<Rightarrow>
          let resp1 = resp\<lparr>resp_Diagnostics := Append (resp_Diagnostics resp) ds\<rparr> in
          if HasError (resp_Diagnostics resp1) then (resp1, w)
          else
            (case tfsdk_Set data of
               (ds2, st) \<Rightarrow>
                 (resp1\<lparr>resp_State := st,
                        resp_Diagnostics := Append (resp_Diagnostics resp1) ds2\<rparr>, w)))"

definition Update_salt ::
  "('h, 'd, 'r) argon2 \<Rightarrow> Argon2ResourceModelSalt Request \<Rightarrow> Argon2ResourceModelSalt Response
     \<Rightarrow> ('h, 'r) World \<Rightarrow> Argon2ResourceModelSalt Response \<times> ('h, 'r) World" where
  "Update_salt lib req resp w =
     (case tfsdk_Get (req_Plan req) zero_Argon2ResourceModelSalt of
        (ds, data) \<Rightarrow>
          let resp1 = resp\<lparr>resp_Diagnostics := Append (resp_Diagnostics resp) ds\<rparr> in
          if HasError (resp_Diagnostics resp1) then (resp1, w)
          else
            (case tfsdk_Get (req_State req) zero_Argon2ResourceModelSalt of
               (ds1, oldData) \<Rightarrow>
                 let resp2 = resp1\<lparr>resp_Diagnostics := Append (resp_Diagnostics resp1) ds1\<rparr> in
                 if Password oldData = Password data then
                   (case tfsdk_Set (data\<lparr>Hash := Hash oldData\<rparr>) of
                      (ds2, st) \<Rightarrow>
                        (resp2\<lparr>resp_State := st,
                               resp_Diagnostics := Append (resp_Diagnostics resp2) ds2\<rparr>, w))
                 else
                   (case generatePassword_salt lib (resp_Diagnostics resp2) data w of
                      ((None, _), w1) \<Rightarrow> (resp2, w1)
                    | ((Some digest, _), w1) \<Rightarrow>
                        (case tfsdk_Set (data\<lparr>Hash := StringValue (Digest_String lib digest)\<rparr>) of
                           (ds2, st) \<Rightarrow>
                             (resp2\<lparr>resp_State := st,
                                    resp_Diagnostics := Append (resp_Diagnostics resp2) ds2\<rparr>,
                              w1)))))"

definition Delete_salt ::
  "Argon2ResourceModelSalt Request \<Rightarrow> Argon2ResourceModelSalt Response
     \<Rightarrow> ('h, 'r) World \<Rightarrow> Argon2ResourceModelSalt Response \<times> ('h, 'r) World" where
  "Delete_salt req resp w =
     (case tfsdk_Get (req_State req) zero_Argon2ResourceModelSalt of
        (ds, data) \<Rightarrow> (resp\<lparr>resp_Diagnostics := Append (resp_Diagnostics resp) ds\<rparr>, w))"

subsection \<open>The identifier in the plan of an update\<close>

text \<open>
  The schema declares \<^verbatim>\<open>id\<close> as computed, with the plan modifier
  \<^verbatim>\<open>stringplanmodifier.UseStateForUnknown()\<close>: the operator cannot configure it, the
  proposed plan of an update holds it as unknown, and the modifier replaces an unknown planned
  value by the value of the prior state unless that is null or the configuration is unknown.
\<close>

definition UseStateForUnknown :: "types_String \<Rightarrow> types_String \<Rightarrow> types_String \<Rightarrow> types_String" where
  "UseStateForUnknown stateValue planValue configValue =
     (if stateValue = StringNull then planValue
      else if planValue \<noteq> StringUnknown then planValue
      else if configValue = StringUnknown then planValue
      else stateValue)"

definition plan_Id :: "types_String \<Rightarrow> types_String" where
  "plan_Id stateId = UseStateForUnknown stateId StringUnknown StringNull"

text \<open>
  A run of the calls that may follow Create on a present record. Each call is made the way
  the framework makes it: the request carries the persisted record as prior state, the plan
  of an update carries the desired record with the planned identifier, the response starts
  with the persisted record and no diagnostics, and the state of the response is persisted.
\<close>

datatype 'm Call = CallRead | CallUpdate 'm

fun lifecycle ::
  "('h, 'd, 'r) argon2 \<Rightarrow> Argon2ResourceModel Call list
     \<Rightarrow> Argon2ResourceModel option \<times> ('h, 'r) World
     \<Rightarrow> Argon2ResourceModel option \<times> ('h, 'r) World" where
  "lifecycle lib [] sw = sw"
| "lifecycle lib (c # cs) (None, w) = (None, w)"
| "lifecycle lib (CallRead # cs) (Some s, w) =
     (case Read \<lparr>req_Plan = None, req_State = Some s\<rparr>
                \<lparr>resp_State = Some s, resp_Diagnostics = []\<rparr> w of
        (resp, w1) \<Rightarrow> lifecycle lib cs (resp_State resp, w1))"
| "lifecycle lib (CallUpdate desired # cs) (Some s, w) =
     (case Update lib \<lparr>req_Plan = Some (desired\<lparr>Id := plan_Id (Id s)\<rparr>), req_State = Some s\<rparr>
                \<lparr>resp_State = Some s, resp_Diagnostics = []\<rparr> w of
        (resp, w1) \<Rightarrow> lifecycle lib cs (resp_State resp, w1))"

subsection \<open>A sample engine for concrete runs\<close>

text \<open>
  A small executable engine of the library's shape, used to run the operations on concrete
  records. Options are applied in order and the first one out of range stops the
  configuration with an error, leaving the hasher as it was before that option. Hashing draws
  a salt of sixteen bytes from a list of prepared salts and fails when none is left. The key
  derivation is a stand-in (the key is the password itself), so the encoded digest is the
  salt followed by the key, and checking a password compares it with what follows the salt.
\<close>

record Hasher =
  h_variant :: Variant
  h_t :: int
  h_m :: "32 word"
  h_p :: int
  h_k :: int

record SampleDigest =
  d_hasher :: Hasher
  d_salt :: string
  d_key :: string

fun sample_opt :: "Opt \<Rightarrow> Hasher \<Rightarrow> string + Hasher" where
  "sample_opt (WithIterations t) h =
     (if t < 1 \<or> 2147483647 < t then Inl ''iterations is invalid'' else Inr (h\<lparr>h_t := t\<rparr>))"
| "sample_opt (WithKeyLength k) h =
     (if k < 4 \<or> 2147483647 < k then Inl ''key length is invalid'' else Inr (h\<lparr>h_k := k\<rparr>))"
| "sample_opt (WithMemoryInKiB m) h =
     (if m < 8 then Inl ''memory is invalid'' else Inr (h\<lparr>h_m := m\<rparr>))"
| "sample_opt (WithVariant v) h = Inr (h\<lparr>h_variant := v\<rparr>)"
| "sample_opt (WithParallelism p) h =
     (if p < 1 \<or> 16777215 < p then Inl ''parallelism is invalid'' else Inr (h\<lparr>h_p := p\<rparr>))"

fun sample_WithOptions :: "Hasher \<Rightarrow> Opt list \<Rightarrow> Hasher \<times> string option" where
  "sample_WithOptions h [] = (h, None)"
| "sample_WithOptions h (opt # opts) =
     (case sample_opt opt h of
        Inl e \<Rightarrow> (h, Some e)
      | Inr h' \<Rightarrow> sample_WithOptions h' opts)"

definition sample_profile :: Hasher where
  "sample_profile = \<lparr>h_variant = VariantID, h_t = 1, h_m = 2097152, h_p = 4, h_k = 32\<rparr>"

fun sample_Hash :: "Hasher \<Rightarrow> string \<Rightarrow> string list \<Rightarrow> (string + SampleDigest) \<times> string list" where
  "sample_Hash h password [] = (Inl ''could not read random bytes'', [])"
| "sample_Hash h password (salt # r) =
     (if length salt = 16
      then (Inr \<lparr>d_hasher = h, d_salt = salt, d_key = password\<rparr>, r)
      else (Inl ''salt is invalid'', r))"

definition sample_String :: "SampleDigest \<Rightarrow> string" where
  "sample_String d = d_salt d @ d_key d"

definition sample_CheckPassword :: "string \<Rightarrow> string \<Rightarrow> bool" where
  "sample_CheckPassword password encoded = (16 \<le> length encoded \<and> drop 16 encoded = password)"

definition sample_argon2 :: "(Hasher, SampleDigest, string list) argon2" where
  "sample_argon2 =
     \<lparr>argon2_ProfileHasher = sample_profile,
      argon2_New = Inr sample_profile,
      Hasher_WithOptions = sample_WithOptions,
      Hasher_Hash = sample_Hash,
      Digest_String = sample_String,
      crypt_CheckPassword = sample_CheckPassword\<rparr>"

definition sample_World :: "string list \<Rightarrow> (Hasher, string list) World" where
  "sample_World salts = \<lparr>Rand = salts, HashCalls = [], TraceLog = []\<rparr>"

text \<open>The records of the acceptance tests: the planned record of a create, and the record
  a create with the salt \<^verbatim>\<open>0123456789abcdef\<close> persists.\<close>

definition example_plan :: Argon2ResourceModel where
  "example_plan =
     \<lparr>Password = StringValue ''example-password'', KeyLen = Int32Value 32,
      Thread = Int32Value 4, Memory = Int32Value 65536, Iterations = Int32Value 3,
      Hash = StringUnknown, Id = StringUnknown\<rparr>"

definition example_state :: Argon2ResourceModel where
  "example_state =
     example_plan\<lparr>Hash := StringValue ''0123456789abcdefexample-password'',
                  Id := StringValue ''argon2-id''\<rparr>"

definition example_plan_salt :: Argon2ResourceModelSalt where
  "example_plan_salt =
     \<lparr>Password = StringValue ''example-password'', KeyLen = Int32Value 32,
      Thread = Int32Value 4, Memory = Int32Value 65536, Iterations = Int32Value 3,
      Hash = StringUnknown, Id = StringUnknown,
      Salt = StringValue ''example-salt'', Time = Int32Value 1\<rparr>"

definition example_state_salt :: Argon2ResourceModelSalt where
  "example_state_salt =
     example_plan_salt\<lparr>Hash := StringValue ''0123456789abcdefexample-password'',
                       Id := StringValue ''argon2-id''\<rparr>"

definition example_plan_new_salt :: Argon2ResourceModelSalt where
  "example_plan_new_salt =
     example_plan_salt\<lparr>Salt := StringValue ''new-salt'', Id := StringValue ''argon2-id''\<rparr>"

definition fresh_Response :: "'m Response" where
  "fresh_Response = \<lparr>resp_State = None, resp_Diagnostics = []\<rparr>"

text \<open>The requests and the initial responses the framework builds: a create has a plan and
  an empty response, an update has a plan and the prior state, and its response starts with
  the prior state.\<close>

definition create_Request :: "'m \<Rightarrow> 'm Request" where
  "create_Request plan = \<lparr>req_Plan = Some plan, req_State = None\<rparr>"

definition update_Request :: "'m \<Rightarrow> 'm \<Rightarrow> 'm Request" where
  "update_Request plan state = \<lparr>req_Plan = Some plan, req_State = Some state\<rparr>"

definition read_Request :: "'m \<Rightarrow> 'm Request" where
  "read_Request state = \<lparr>req_Plan = None, req_State = Some state\<rparr>"

definition prior_Response :: "'m \<Rightarrow> 'm Response" where
  "prior_Response state = \<lparr>resp_State = Some state, resp_Diagnostics = []\<rparr>"

section \<open>Properties\<close>

subsection \<open>Shared facts about the operations\<close>

lemmas sample_defs = sample_argon2_def sample_World_def sample_profile_def sample_String_def
  sample_CheckPassword_def example_plan_def example_state_def example_plan_salt_def
  example_state_salt_def example_plan_new_salt_def fresh_Response_def create_Request_def
  update_Request_def read_Request_def prior_Response_def

lemmas op_defs = Create_def Update_def Read_def Create_salt_def Update_salt_def Read_salt_def
  generatePassword_def generatePassword_salt_def hasher_Options_def hasher_Hash_def
  tflog_Trace_def tfsdk_Get_def tfsdk_Set_def HasError_def AddError_def Let_def

lemma HasError_Nil: "\<not> HasError []"
  by (simp add: HasError_def)

lemma HasError_Append: "HasError (Append diags ds) = (HasError diags \<or> HasError ds)"
  by (induction ds arbitrary: diags) (auto simp add: HasError_def)

lemma HasError_AddError: "HasError (AddError diags summary detail)"
  unfolding AddError_def HasError_Append by (simp add: HasError_def)

lemma HasError_Get_None: "HasError (Append diags (fst (tfsdk_Get None target)))"
  unfolding HasError_Append by (simp add: tfsdk_Get_def HasError_def)

lemma Read_present:
  assumes "req_State req = Some s" "\<not> HasError (resp_Diagnostics resp)"
  shows "Read req resp w = (resp\<lparr>resp_State := Some s\<rparr>, w)"
  using assms by (simp add: Read_def tfsdk_Get_def tfsdk_Set_def)

lemma Read_salt_present:
  assumes "req_State req = Some s" "\<not> HasError (resp_Diagnostics resp)"
  shows "Read_salt req resp w = (resp\<lparr>resp_State := Some s\<rparr>, w)"
  using assms by (simp add: Read_salt_def tfsdk_Get_def tfsdk_Set_def)

lemma Update_same:
  assumes "req_Plan req = Some data" "req_State req = Some old"
    "\<not> HasError (resp_Diagnostics resp)" "Password old = Password data"
  shows "Update lib req resp w = (resp\<lparr>resp_State := Some (data\<lparr>Hash := Hash old\<rparr>)\<rparr>, w)"
  using assms by (simp add: Update_def tfsdk_Get_def tfsdk_Set_def)

lemma Update_salt_same:
  assumes "req_Plan req = Some data" "req_State req = Some old"
    "\<not> HasError (resp_Diagnostics resp)" "Password old = Password data"
  shows "Update_salt lib req resp w = (resp\<lparr>resp_State := Some (data\<lparr>Hash := Hash old\<rparr>)\<rparr>, w)"
  using assms by (simp add: Update_salt_def tfsdk_Get_def tfsdk_Set_def)

lemma Update_changed:
  assumes "req_Plan req = Some data" "req_State req = Some old"
    "\<not> HasError (resp_Diagnostics resp)" "Password old \<noteq> Password data"
  shows "Update lib req resp w =
     (case generatePassword lib (resp_Diagnostics resp) data w of
        ((None, _), w1) \<Rightarrow> (resp, w1)
      | ((Some digest, _), w1) \<Rightarrow>
          (resp\<lparr>resp_State := Some (data\<lparr>Hash := StringValue (Digest_String lib digest)\<rparr>)\<rparr>,
           w1))"
  using assms
  by (simp add: Update_def tfsdk_Get_def tfsdk_Set_def split: prod.splits option.splits)


lemma Create_decoded:
  assumes "req_Plan req = Some data" "\<not> HasError (resp_Diagnostics resp)"
  shows "Create lib req resp w =
     (case generatePassword lib (resp_Diagnostics resp)
             (data\<lparr>Id := StringValue ''argon2-id''\<rparr>) w of
        ((None, _), w1) \<Rightarrow> (resp, w1)
      | ((Some digest, _), w1) \<Rightarrow>
          (resp\<lparr>resp_State := Some (data\<lparr>Id := StringValue ''argon2-id'',
                   Hash := StringValue (Digest_String lib digest)\<rparr>)\<rparr>,
           tflog_Trace ''created a resource'' w1))"
  using assms
  by (simp add: Create_def tfsdk_Get_def tfsdk_Set_def Let_def split: prod.splits option.splits)

lemma Create_state_cases:
  "resp_State (fst (Create lib req resp w)) = resp_State resp \<or>
   (\<exists>data digest. req_Plan req = Some data \<and>
      resp_State (fst (Create lib req resp w)) =
        Some (data\<lparr>Id := StringValue ''argon2-id'',
                   Hash := StringValue (Digest_String lib digest)\<rparr>))"
proof (cases "req_Plan req")
  case None
  then show ?thesis
    using HasError_Get_None [of "resp_Diagnostics resp" zero_Argon2ResourceModel]
    by (auto simp add: Create_def Let_def split: prod.splits)
next
  case (Some data)
  then show ?thesis
    by (auto simp add: Create_def tfsdk_Get_def tfsdk_Set_def Let_def
             split: prod.splits option.splits)
qed

lemma Create_salt_state_cases:
  "resp_State (fst (Create_salt lib req resp w)) = resp_State resp \<or>
   (\<exists>data digest. req_Plan req = Some data \<and>
      resp_State (fst (Create_salt lib req resp w)) =
        Some (data\<lparr>Id := StringValue ''argon2-id'',
                   Hash := StringValue (Digest_String lib digest)\<rparr>))"
proof (cases "req_Plan req")
  case None
  then show ?thesis
    using HasError_Get_None [of "resp_Diagnostics resp" zero_Argon2ResourceModelSalt]
    by (auto simp add: Create_salt_def Let_def split: prod.splits)
next
  case (Some data)
  then show ?thesis
    by (auto simp add: Create_salt_def tfsdk_Get_def tfsdk_Set_def Let_def
             split: prod.splits option.splits)
qed

lemma Create_Id:
  assumes "resp_State resp = None" "resp_State (fst (Create lib req resp w)) = Some r"
  shows "Id r = StringValue ''argon2-id''"
  using assms Create_state_cases [of lib req resp w] by auto

lemma Create_salt_Id:
  assumes "resp_State resp = None" "resp_State (fst (Create_salt lib req resp w)) = Some r"
  shows "Id r = StringValue ''argon2-id''"
  using assms Create_salt_state_cases [of lib req resp w] by auto

text \<open>Whenever \<^verbatim>\<open>generatePassword\<close> meets an error, its own collection holds an error
  afterwards.\<close>

lemma generatePassword_records_error:
  "snd (Hasher_WithOptions lib (argon2_ProfileHasher lib) (hasher_Options data)) \<noteq> None \<or>
   fst (fst (generatePassword lib diag data w)) = None \<Longrightarrow>
   HasError (snd (fst (generatePassword lib diag data w)))"
  by (auto simp add: generatePassword_def HasError_AddError Let_def
           split: prod.splits sum.splits option.splits)

lemma plan_Id_known: "plan_Id (StringValue i) = StringValue i"
  by (simp add: plan_Id_def UseStateForUnknown_def)

text \<open>Read and Update, called as the framework calls them, keep a known identifier.\<close>

lemma lifecycle_keeps_Id:
  "Id s = StringValue i \<Longrightarrow>
   \<exists>s'. fst (lifecycle lib calls (Some s, w)) = Some s' \<and> Id s' = StringValue i"
proof (induction calls arbitrary: s w)
  case Nil
  then show ?case by simp
next
  case (Cons c cs)
  show ?case
  proof (cases c)
    case CallRead
    then show ?thesis using Cons by (simp add: Read_present HasError_Nil)
  next
    case (CallUpdate desired)
    let ?plan = "desired\<lparr>Id := plan_Id (Id s)\<rparr>"
    let ?req = "\<lparr>req_Plan = Some ?plan, req_State = Some s\<rparr>"
    let ?resp = "\<lparr>resp_State = Some s, resp_Diagnostics = []\<rparr>"
    obtain resp w1 where u: "Update lib ?req ?resp w = (resp, w1)"
      by (cases "Update lib ?req ?resp w")
    have "\<exists>s1. resp_State resp = Some s1 \<and> Id s1 = StringValue i"
    proof (cases "Password s = Password desired")
      case True
      then show ?thesis using u Cons.prems
        by (auto simp add: Update_same [where data = ?plan and old = s]
                 HasError_Nil plan_Id_known)
    next
      case False
      then show ?thesis using u Cons.prems
        by (auto simp add: Update_changed [where data = ?plan and old = s]
                 HasError_Nil plan_Id_known split: prod.splits option.splits)
    qed
    then obtain s1 where "resp_State resp = Some s1" "Id s1 = StringValue i" by blast
    then show ?thesis using CallUpdate u Cons.IH [of s1 w1] by simp
  qed
qed

subsection \<open>Update with an unchanged secret\<close>

text \<open>
  C1. An update whose planned password equals the password of the prior state (and, in the
  revision with a salt, whose planned salt equals the prior salt too) persists the planned
  record with the hash of the prior state copied into it, whatever the other attributes of
  the plan are; the world is left as it was, so \<^verbatim>\<open>hasher.Hash\<close> is not called and the
  random source is not read.
\<close>

theorem update_unchanged_secret_keeps_hash:
  "(req_Plan req = Some data \<longrightarrow> req_State req = Some old \<longrightarrow>
    \<not> HasError (resp_Diagnostics resp) \<longrightarrow> Password data = Password old \<longrightarrow>
      resp_State (fst (Update lib req resp w)) = Some (data\<lparr>Hash := Hash old\<rparr>) \<and>
      snd (Update lib req resp w) = w)
   \<and>
   (req_Plan req' = Some data' \<longrightarrow> req_State req' = Some old' \<longrightarrow>
    \<not> HasError (resp_Diagnostics resp') \<longrightarrow> Password data' = Password old' \<longrightarrow>
    Salt data' = Salt old' \<longrightarrow>
      resp_State (fst (Update_salt lib req' resp' w)) = Some (data'\<lparr>Hash := Hash old'\<rparr>) \<and>
      snd (Update_salt lib req' resp' w) = w)"
  by (simp add: Update_same Update_salt_same)

theorem update_unchanged_secret_keeps_hash_witness:
  "resp_State (fst (Update sample_argon2
       (update_Request (example_plan\<lparr>Thread := Int32Value 8\<rparr>) example_state)
       (prior_Response example_state) (sample_World [''fedcba9876543210''])))
     = Some (example_plan\<lparr>Thread := Int32Value 8,
                          Hash := StringValue ''0123456789abcdefexample-password''\<rparr>)
   \<and> snd (Update sample_argon2
       (update_Request (example_plan\<lparr>Thread := Int32Value 8\<rparr>) example_state)
       (prior_Response example_state) (sample_World [''fedcba9876543210'']))
     = sample_World [''fedcba9876543210'']
   \<and> resp_State (fst (Update_salt sample_argon2
       (update_Request (example_plan_salt\<lparr>Memory := Int32Value 1024\<rparr>) example_state_salt)
       (prior_Response example_state_salt) (sample_World [''fedcba9876543210''])))
     = Some (example_plan_salt\<lparr>Memory := Int32Value 1024,
                               Hash := StringValue ''0123456789abcdefexample-password''\<rparr>)
   \<and> snd (Update_salt sample_argon2
       (update_Request (example_plan_salt\<lparr>Memory := Int32Value 1024\<rparr>) example_state_salt)
       (prior_Response example_state_salt) (sample_World [''fedcba9876543210'']))
     = sample_World [''fedcba9876543210'']"
  using update_unchanged_secret_keeps_hash
    [of "update_Request (example_plan\<lparr>Thread := Int32Value 8\<rparr>) example_state"
        "example_plan\<lparr>Thread := Int32Value 8\<rparr>" example_state
        "prior_Response example_state"
        sample_argon2 "sample_World [''fedcba9876543210'']"
        "update_Request (example_plan_salt\<lparr>Memory := Int32Value 1024\<rparr>) example_state_salt"
        "example_plan_salt\<lparr>Memory := Int32Value 1024\<rparr>" example_state_salt
        "prior_Response example_state_salt"]
  by (simp add: sample_defs HasError_def)

subsection \<open>Update with a changed salt and an unchanged secret\<close>

text \<open>
  C2, as stated, fails. In the revision with a salt, an update that changes the salt from
  \<^verbatim>\<open>example-salt\<close> to \<^verbatim>\<open>new-salt\<close> and keeps the password (the second step of the
  acceptance test \<^verbatim>\<open>TestAccArgon2ResourceHashShouldNotChangeWhenPasswordIsTheSame\<close>)
  persists the hash of the prior state and makes no call of \<^verbatim>\<open>hasher.Hash\<close>.
\<close>

theorem update_new_salt_rehashes_counterexample:
  "Salt example_plan_new_salt \<noteq> Salt example_state_salt
   \<and> Password example_plan_new_salt = Password example_state_salt
   \<and> map_option Hash (resp_State (fst (Update_salt sample_argon2
         (update_Request example_plan_new_salt example_state_salt)
         (prior_Response example_state_salt) (sample_World [''fedcba9876543210'']))))
       = Some (Hash example_state_salt)
   \<and> HashCalls (snd (Update_salt sample_argon2
         (update_Request example_plan_new_salt example_state_salt)
         (prior_Response example_state_salt) (sample_World [''fedcba9876543210''])))
       = []"
  by (simp add: sample_defs op_defs)

text \<open>
  C2, amended. In the revision with a salt, the salt is not compared: an update whose
  planned salt differs from the prior salt while the password is unchanged persists the
  planned record with the hash of the prior state, and leaves the world as it was
  (\<^verbatim>\<open>hasher.Hash\<close> is not called).
\<close>

theorem update_new_salt_keeps_hash:
  assumes "req_Plan req = Some data" and "req_State req = Some old"
    and "\<not> HasError (resp_Diagnostics resp)"
    and "Password data = Password old" and "Salt data \<noteq> Salt old"
  shows "resp_State (fst (Update_salt lib req resp w)) = Some (data\<lparr>Hash := Hash old\<rparr>)
         \<and> snd (Update_salt lib req resp w) = w"
  using assms by (simp add: Update_salt_same)

theorem update_new_salt_keeps_hash_witness:
  "Salt example_plan_new_salt \<noteq> Salt example_state_salt
   \<and> resp_State (fst (Update_salt sample_argon2
         (update_Request example_plan_new_salt example_state_salt)
         (prior_Response example_state_salt) (sample_World [''fedcba9876543210''])))
       = Some (example_plan_new_salt\<lparr>Hash := StringValue ''0123456789abcdefexample-password''\<rparr>)
   \<and> snd (Update_salt sample_argon2
         (update_Request example_plan_new_salt example_state_salt)
         (prior_Response example_state_salt) (sample_World [''fedcba9876543210'']))
       = sample_World [''fedcba9876543210'']"
proof -
  have p: "req_Plan (update_Request example_plan_new_salt example_state_salt)
             = Some example_plan_new_salt"
    and s: "req_State (update_Request example_plan_new_salt example_state_salt)
             = Some example_state_salt"
    by (simp_all add: update_Request_def)
  have e: "\<not> HasError (resp_Diagnostics (prior_Response example_state_salt))"
    by (simp add: prior_Response_def HasError_def)
  have pw: "Password example_plan_new_salt = Password example_state_salt"
    and sa: "Salt example_plan_new_salt \<noteq> Salt example_state_salt"
    by (simp_all add: sample_defs)
  show ?thesis
    using update_new_salt_keeps_hash [OF p s e pw sa, of sample_argon2
        "sample_World [''fedcba9876543210'']"] sa
    by (simp add: sample_defs)
qed

subsection \<open>Update with a changed secret\<close>




subsection \<open>Failure of the hashing\<close>

text \<open>
  C4. When \<^verbatim>\<open>generatePassword\<close> returns no digest, Create and Update return before
  \<^verbatim>\<open>resp.State.Set\<close>: the state of the response is the one the response came with.
\<close>

theorem hash_failure_writes_no_state:
  "(req_Plan req = Some data \<longrightarrow> \<not> HasError (resp_Diagnostics resp) \<longrightarrow>
    fst (fst (generatePassword lib (resp_Diagnostics resp)
                (data\<lparr>Id := StringValue ''argon2-id''\<rparr>) w)) = None \<longrightarrow>
      resp_State (fst (Create lib req resp w)) = resp_State resp)
   \<and>
   (req_Plan req' = Some data' \<longrightarrow> req_State req' = Some old' \<longrightarrow>
    \<not> HasError (resp_Diagnostics resp') \<longrightarrow> Password old' \<noteq> Password data' \<longrightarrow>
    fst (fst (generatePassword lib (resp_Diagnostics resp') data' w')) = None \<longrightarrow>
      resp_State (fst (Update lib req' resp' w')) = resp_State resp')"
  by (auto simp add: Create_decoded Update_changed split: prod.splits option.splits)

theorem hash_failure_writes_no_state_witness:
  "fst (fst (generatePassword sample_argon2 []
          (example_plan\<lparr>Id := StringValue ''argon2-id''\<rparr>) (sample_World []))) = None
   \<and> resp_State (fst (Create sample_argon2 (create_Request example_plan) fresh_Response
          (sample_World []))) = None
   \<and> fst (fst (generatePassword sample_argon2 []
          (example_plan\<lparr>Password := StringValue ''new-password''\<rparr>) (sample_World []))) = None
   \<and> resp_State (fst (Update sample_argon2
          (update_Request (example_plan\<lparr>Password := StringValue ''new-password''\<rparr>) example_state)
          (prior_Response example_state) (sample_World []))) = Some example_state"
  using hash_failure_writes_no_state
    [where req = "create_Request example_plan" and data = example_plan
       and resp = fresh_Response and lib = sample_argon2 and w = "sample_World []"
       and req' = "update_Request (example_plan\<lparr>Password := StringValue ''new-password''\<rparr>)
                     example_state"
       and data' = "example_plan\<lparr>Password := StringValue ''new-password''\<rparr>"
       and old' = example_state and resp' = "prior_Response example_state"
       and w' = "sample_World []"]
  by (simp add: sample_defs op_defs)

text \<open>
  C5 does not hold of the code. \<^verbatim>\<open>generatePassword\<close> receives the diagnostics of the
  response by value, so the errors it adds stay in its own copy. Whenever the configuration of
  the hasher or the hashing fails during a Create whose plan decodes, the copy holds an error
  and the diagnostics of the response are what they were before the call.
\<close>

theorem create_drops_hashing_diagnostics:
  assumes "req_Plan req = Some data" and "\<not> HasError (resp_Diagnostics resp)"
    and "snd (Hasher_WithOptions lib (argon2_ProfileHasher lib)
                (hasher_Options (data\<lparr>Id := StringValue ''argon2-id''\<rparr>))) \<noteq> None \<or>
         fst (fst (generatePassword lib (resp_Diagnostics resp)
                (data\<lparr>Id := StringValue ''argon2-id''\<rparr>) w)) = None"
  shows "HasError (snd (fst (generatePassword lib (resp_Diagnostics resp)
                (data\<lparr>Id := StringValue ''argon2-id''\<rparr>) w)))
         \<and> resp_Diagnostics (fst (Create lib req resp w)) = resp_Diagnostics resp"
proof
  show "HasError (snd (fst (generatePassword lib (resp_Diagnostics resp)
                (data\<lparr>Id := StringValue ''argon2-id''\<rparr>) w)))"
    using assms(3) by (rule generatePassword_records_error)
  show "resp_Diagnostics (fst (Create lib req resp w)) = resp_Diagnostics resp"
    by (simp add: Create_decoded [OF assms(1,2)] split: prod.splits option.splits)
qed

theorem create_drops_hashing_diagnostics_witness:
  "snd (fst (generatePassword sample_argon2 []
          (example_plan\<lparr>Iterations := Int32Value 0, Id := StringValue ''argon2-id''\<rparr>)
          (sample_World [''0123456789abcdef''])))
     = [Diagnostic SeverityError ''Argon 2 initialization error''
          ''Unable to generate hash, got error iterations is invalid'']
   \<and> resp_Diagnostics (fst (Create sample_argon2
          (create_Request (example_plan\<lparr>Iterations := Int32Value 0\<rparr>)) fresh_Response
          (sample_World [''0123456789abcdef'']))) = []
   \<and> snd (fst (generatePassword sample_argon2 []
          (example_plan\<lparr>Id := StringValue ''argon2-id''\<rparr>) (sample_World [])))
     = [Diagnostic SeverityError ''Argon 2 error''
          ''Unable to hash Argon2, got error: could not read random bytes'']
   \<and> resp_Diagnostics (fst (Create sample_argon2 (create_Request example_plan) fresh_Response
          (sample_World []))) = []"
proof -
  have p: "\<And>d. req_Plan (create_Request d) = Some d"
    by (simp add: create_Request_def)
  have e: "\<not> HasError (resp_Diagnostics fresh_Response)"
    by (simp add: fresh_Response_def HasError_def)
  have f1: "snd (Hasher_WithOptions sample_argon2 (argon2_ProfileHasher sample_argon2)
                (hasher_Options (example_plan\<lparr>Iterations := Int32Value 0,
                   Id := StringValue ''argon2-id''\<rparr>))) \<noteq> None \<or>
         fst (fst (generatePassword sample_argon2 (resp_Diagnostics fresh_Response)
                (example_plan\<lparr>Iterations := Int32Value 0, Id := StringValue ''argon2-id''\<rparr>)
                (sample_World [''0123456789abcdef'']))) = None"
    by (simp add: sample_defs hasher_Options_def)
  have f2: "snd (Hasher_WithOptions sample_argon2 (argon2_ProfileHasher sample_argon2)
                (hasher_Options (example_plan\<lparr>Id := StringValue ''argon2-id''\<rparr>))) \<noteq> None \<or>
         fst (fst (generatePassword sample_argon2 (resp_Diagnostics fresh_Response)
                (example_plan\<lparr>Id := StringValue ''argon2-id''\<rparr>) (sample_World []))) = None"
    by (simp add: sample_defs op_defs)
  show ?thesis
    using create_drops_hashing_diagnostics [OF p e f1] create_drops_hashing_diagnostics [OF p e f2]
    by (simp add: sample_defs op_defs)
qed

text \<open>
  C6 does not hold of the code. In the first revision, when \<^verbatim>\<open>WithOptions\<close> rejects the
  options, the error is recorded and \<^verbatim>\<open>hasher.Hash\<close> is called all the same, on the hasher
  as \<^verbatim>\<open>WithOptions\<close> left it; if that call returns a digest, \<^verbatim>\<open>generatePassword\<close> returns
  that digest.
\<close>

theorem generatePassword_hashes_after_option_error:
  assumes "Hasher_WithOptions lib (argon2_ProfileHasher lib) (hasher_Options data) = (h, Some e)"
    and "Hasher_Hash lib h (ValueString (Password data)) (Rand w) = (Inr d, r)"
  shows "fst (fst (generatePassword lib diag data w)) = Some d
         \<and> HashCalls (snd (generatePassword lib diag data w))
             = HashCalls w @ [(h, ValueString (Password data))]"
  using assms by (simp add: generatePassword_def hasher_Hash_def)

theorem generatePassword_hashes_after_option_error_witness:
  "Hasher_WithOptions sample_argon2 (argon2_ProfileHasher sample_argon2)
       (hasher_Options (example_plan\<lparr>Iterations := Int32Value 0\<rparr>))
     = (sample_profile, Some ''iterations is invalid'')
   \<and> fst (fst (generatePassword sample_argon2 [] (example_plan\<lparr>Iterations := Int32Value 0\<rparr>)
          (sample_World [''0123456789abcdef''])))
     = Some \<lparr>d_hasher = sample_profile, d_salt = ''0123456789abcdef'',
             d_key = ''example-password''\<rparr>
   \<and> HashCalls (snd (generatePassword sample_argon2 []
          (example_plan\<lparr>Iterations := Int32Value 0\<rparr>) (sample_World [''0123456789abcdef''])))
     = [(sample_profile, ''example-password'')]"
proof -
  have o: "Hasher_WithOptions sample_argon2 (argon2_ProfileHasher sample_argon2)
       (hasher_Options (example_plan\<lparr>Iterations := Int32Value 0\<rparr>))
     = (sample_profile, Some ''iterations is invalid'')"
    by (simp add: sample_defs hasher_Options_def)
  have h: "Hasher_Hash sample_argon2 sample_profile
       (ValueString (Password (example_plan\<lparr>Iterations := Int32Value 0\<rparr>)))
       (Rand (sample_World [''0123456789abcdef'']))
     = (Inr \<lparr>d_hasher = sample_profile, d_salt = ''0123456789abcdef'',
              d_key = ''example-password''\<rparr>, [])"
    by (simp add: sample_defs)
  show ?thesis
    using generatePassword_hashes_after_option_error [OF o h, of "[]"] o
    by (simp add: sample_defs)
qed

text \<open>
  C7 does not hold of the code. In the revision with a salt, \<^verbatim>\<open>generatePassword\<close> reads
  the password of the record and nothing else: two records with the same password, whatever
  their salts and cost attributes, give the same calls of the library and the same result.
\<close>

theorem generatePassword_salt_reads_password_only:
  assumes "Password data = Password data'"
  shows "generatePassword_salt lib diag data w = generatePassword_salt lib diag data' w"
  unfolding generatePassword_salt_def assms by (rule refl)

theorem generatePassword_salt_reads_password_only_witness:
  "Salt example_plan_salt \<noteq> Salt example_plan_new_salt
   \<and> generatePassword_salt sample_argon2 [] example_plan_salt (sample_World [''0123456789abcdef''])
     = generatePassword_salt sample_argon2 []
         (example_plan_new_salt\<lparr>KeyLen := Int32Value 64, Iterations := Int32Value 9\<rparr>)
         (sample_World [''0123456789abcdef''])
   \<and> HashCalls (snd (generatePassword_salt sample_argon2 [] example_plan_salt
         (sample_World [''0123456789abcdef''])))
     = [(sample_profile, ''example-password'')]"
proof -
  have "Password example_plan_salt
          = Password (example_plan_new_salt\<lparr>KeyLen := Int32Value 64, Iterations := Int32Value 9\<rparr>)"
    by (simp add: sample_defs)
  from generatePassword_salt_reads_password_only [OF this, of sample_argon2 "[]"
      "sample_World [''0123456789abcdef'']"]
  show ?thesis by (simp add: sample_defs op_defs)
qed

subsection \<open>The identifier\<close>

text \<open>
  C8. After a Create that persisted a record, every run of Read and Update calls, each made
  with the persisted record as prior state and, for an update, with the identifier the plan
  modifier of the schema puts into the plan, ends with a persisted record whose identifier
  is the one Create assigned.
\<close>

theorem identifier_immutable:
  assumes "resp_State resp = None"
    and "resp_State (fst (Create lib req resp w)) = Some created"
  shows "\<exists>s. fst (lifecycle lib calls (Some created, wa)) = Some s \<and> Id s = Id created"
  using lifecycle_keeps_Id [of created "''argon2-id''" lib calls wa] Create_Id [OF assms]
  by simp

theorem identifier_immutable_witness:
  "resp_State (fst (Create sample_argon2 (create_Request example_plan) fresh_Response
       (sample_World [''0123456789abcdef'']))) = Some example_state
   \<and> Id (the (fst (lifecycle sample_argon2
       [CallRead, CallUpdate (example_plan\<lparr>Thread := Int32Value 8\<rparr>),
        CallUpdate (example_plan\<lparr>Password := StringValue ''new-password''\<rparr>), CallRead]
       (Some example_state, sample_World [''fedcba9876543210'']))))
     = Id example_state"
proof -
  have r: "resp_State (fresh_Response :: Argon2ResourceModel Response) = None"
    by (simp add: fresh_Response_def)
  have c: "resp_State (fst (Create sample_argon2 (create_Request example_plan) fresh_Response
       (sample_World [''0123456789abcdef'']))) = Some example_state"
    by (simp add: sample_defs op_defs)
  from identifier_immutable [OF r c,
      of "[CallRead, CallUpdate (example_plan\<lparr>Thread := Int32Value 8\<rparr>),
           CallUpdate (example_plan\<lparr>Password := StringValue ''new-password''\<rparr>), CallRead]"
         "sample_World [''fedcba9876543210'']"] c
  show ?thesis by (simp add: sample_defs op_defs plan_Id_def UseStateForUnknown_def)
qed

text \<open>
  C10. Every record a Create persists has the identifier \<^verbatim>\<open>argon2-id\<close>, whatever the
  plan holds; so the records of any two creates have the same identifier. This holds for
  both revisions.
\<close>

theorem create_assigns_constant_identifier:
  "(resp_State resp = None \<longrightarrow> resp_State respb = None \<longrightarrow>
    resp_State (fst (Create lib req resp w)) = Some r \<longrightarrow>
    resp_State (fst (Create lib reqb respb wb)) = Some rb \<longrightarrow>
      Id r = StringValue ''argon2-id'' \<and> Id rb = Id r)
   \<and>
   (resp_State resp' = None \<longrightarrow> resp_State respb' = None \<longrightarrow>
    resp_State (fst (Create_salt lib req' resp' w)) = Some r' \<longrightarrow>
    resp_State (fst (Create_salt lib reqb' respb' wb)) = Some rb' \<longrightarrow>
      Id r' = StringValue ''argon2-id'' \<and> Id rb' = Id r')"
proof (intro conjI impI)
  assume "resp_State resp = None" "resp_State (fst (Create lib req resp w)) = Some r"
  then show a: "Id r = StringValue ''argon2-id''" by (rule Create_Id)
  assume "resp_State respb = None" "resp_State (fst (Create lib reqb respb wb)) = Some rb"
  then have "Id rb = StringValue ''argon2-id''" by (rule Create_Id)
  then show "Id rb = Id r" using a by simp
next
  assume "resp_State resp' = None" "resp_State (fst (Create_salt lib req' resp' w)) = Some r'"
  then show a: "Id r' = StringValue ''argon2-id''" by (rule Create_salt_Id)
  assume "resp_State respb' = None" "resp_State (fst (Create_salt lib reqb' respb' wb)) = Some rb'"
  then have "Id rb' = StringValue ''argon2-id''" by (rule Create_salt_Id)
  then show "Id rb' = Id r'" using a by simp
qed

theorem create_assigns_constant_identifier_witness:
  "Id (the (resp_State (fst (Create sample_argon2 (create_Request example_plan) fresh_Response
       (sample_World [''0123456789abcdef''])))))
     = StringValue ''argon2-id''
   \<and> Id (the (resp_State (fst (Create sample_argon2
       (create_Request (example_plan\<lparr>Password := StringValue ''new-password'',
           KeyLen := Int32Value 64\<rparr>)) fresh_Response
       (sample_World [''fedcba9876543210''])))))
     = StringValue ''argon2-id''
   \<and> Id (the (resp_State (fst (Create_salt sample_argon2 (create_Request example_plan_salt)
       fresh_Response (sample_World [''0123456789abcdef''])))))
     = StringValue ''argon2-id''
   \<and> Id (the (resp_State (fst (Create_salt sample_argon2 (create_Request example_plan_new_salt)
       fresh_Response (sample_World [''fedcba9876543210''])))))
     = StringValue ''argon2-id''"
  using create_assigns_constant_identifier
    [where resp = fresh_Response and respb = fresh_Response and lib = sample_argon2
       and req = "create_Request example_plan"
       and w = "sample_World [''0123456789abcdef'']"
       and reqb = "create_Request (example_plan\<lparr>Password := StringValue ''new-password'',
           KeyLen := Int32Value 64\<rparr>)"
       and wb = "sample_World [''fedcba9876543210'']"
       and resp' = fresh_Response and respb' = fresh_Response
       and req' = "create_Request example_plan_salt"
       and reqb' = "create_Request example_plan_new_salt"]
  by (simp add: sample_defs op_defs)

subsection \<open>Read\<close>

text \<open>
  C9. A Read on a present record stores in the response exactly the record of the prior
  state, field for field, and leaves the world as it was: no call of \<^verbatim>\<open>hasher.Hash\<close>,
  no read of the random source. This holds for both revisions.
\<close>

theorem read_passes_state_through:
  "(req_State req = Some s \<longrightarrow> \<not> HasError (resp_Diagnostics resp) \<longrightarrow>
      resp_State (fst (Read req resp w)) = Some s \<and> snd (Read req resp w) = w)
   \<and>
   (req_State req' = Some s' \<longrightarrow> \<not> HasError (resp_Diagnostics resp') \<longrightarrow>
      resp_State (fst (Read_salt req' resp' w)) = Some s' \<and> snd (Read_salt req' resp' w) = w)"
  by (simp add: Read_present Read_salt_present)

theorem read_passes_state_through_witness:
  "resp_State (fst (Read (read_Request example_state) (prior_Response example_state)
       (sample_World [''fedcba9876543210'']))) = Some example_state
   \<and> snd (Read (read_Request example_state) (prior_Response example_state)
       (sample_World [''fedcba9876543210''])) = sample_World [''fedcba9876543210'']
   \<and> resp_State (fst (Read_salt (read_Request example_state_salt)
       (prior_Response example_state_salt) (sample_World [''fedcba9876543210''])))
       = Some example_state_salt
   \<and> snd (Read_salt (read_Request example_state_salt) (prior_Response example_state_salt)
       (sample_World [''fedcba9876543210''])) = sample_World [''fedcba9876543210'']"
  using read_passes_state_through
    [of "read_Request example_state" example_state "prior_Response example_state"
        "sample_World [''fedcba9876543210'']"
        "read_Request example_state_salt" example_state_salt
        "prior_Response example_state_salt"]
  by (simp add: read_Request_def prior_Response_def HasError_def)

end
